theory Spec2Isabelle
  imports Main "HOL-Library.Sublist"
begin

section \<open>Go strings and the library functions the program calls\<close>

text \<open>
  A Go string is a sequence of bytes; \<open>len\<close> counts bytes and \<open>strings.Index\<close> returns a
  byte offset. It is modelled as \<open>string\<close> (a list of 8-bit characters). Go's \<open>int\<close> is
  modelled as \<open>int\<close>: offsets are bounded by the length of a string held in memory, so no
  index computation of the program can overflow 64 bits.

  A run-time panic (a slice expression out of range, a nil pointer dereference) ends the
  process; it is a value of the error type, next to the errors that
  \<open>strconv.ParseUint\<close> returns.
\<close>

datatype error =
    PanicSliceBounds
  | PanicNilDereference
  | ErrSyntax
  | ErrRange
  | ErrBase
  | ErrBitSize

text \<open>
  \<open>strings.Index(s, substr)\<close>: the byte offset of the first occurrence of \<open>substr\<close> in
  \<open>s\<close>, or \<open>-1\<close> when there is none. The empty string occurs at offset 0. The search
  tries the offsets \<open>0, 1, \<dots>\<close> in turn; \<open>indexFrom i\<close> is the search that has reached
  offset \<open>i\<close>, with the remainder of \<open>s\<close> as its argument.
\<close>

fun indexFrom :: "nat \<Rightarrow> string \<Rightarrow> string \<Rightarrow> int" where
  "indexFrom i [] substr = (if substr = [] then int i else - 1)"
| "indexFrom i (c # s) substr =
     (if prefix substr (c # s) then int i else indexFrom (Suc i) s substr)"

definition Index :: "string \<Rightarrow> string \<Rightarrow> int" where
  "Index s substr = indexFrom 0 s substr"

text \<open>\<open>strings.Contains(s, substr)\<close> is \<open>Index(s, substr) >= 0\<close>.\<close>

definition Contains :: "string \<Rightarrow> string \<Rightarrow> bool" where
  "Contains s substr = (0 \<le> Index s substr)"

text \<open>
  The slice expressions \<open>s[a:]\<close> and \<open>s[a:b]\<close> on a string: they panic unless
  \<open>0 \<le> a \<le> len(s)\<close>, respectively \<open>0 \<le> a \<le> b \<le> len(s)\<close>.
\<close>

definition slice_from :: "string \<Rightarrow> int \<Rightarrow> error + string" where
  "slice_from s a =
     (if 0 \<le> a \<and> a \<le> int (length s) then Inr (drop (nat a) s)
      else Inl PanicSliceBounds)"

definition slice :: "string \<Rightarrow> int \<Rightarrow> int \<Rightarrow> error + string" where
  "slice s a b =
     (if 0 \<le> a \<and> a \<le> b \<and> b \<le> int (length s)
      then Inr (take (nat b - nat a) (drop (nat a) s))
      else Inl PanicSliceBounds)"

text \<open>
  \<open>strings.Trim(s, cutset)\<close> removes from the end and then from the start of \<open>s\<close> every
  Unicode code point that is in \<open>cutset\<close>; \<open>strings.TrimSpace\<close> does the same for the
  code points with the White_Space property. Both decode \<open>s\<close> one UTF-8 sequence at a
  time. A set of code points is given here as the list of their UTF-8 encodings: the
  code point decoded at the start (at the end) of \<open>s\<close> is in the set exactly when one of
  these encodings is a prefix (a suffix) of \<open>s\<close>, because an invalid sequence decodes to
  U+FFFD, which is in neither set.
\<close>

fun dropRune :: "string list \<Rightarrow> string \<Rightarrow> string option" where
  "dropRune [] s = None"
| "dropRune (r # rs) s =
     (if r \<noteq> [] \<and> prefix r s then Some (drop (length r) s) else dropRune rs s)"

fun dropLastRune :: "string list \<Rightarrow> string \<Rightarrow> string option" where
  "dropLastRune [] s = None"
| "dropLastRune (r # rs) s =
     (if r \<noteq> [] \<and> suffix r s then Some (take (length s - length r) s)
      else dropLastRune rs s)"

lemma dropRune_shorter: "dropRune rs s = Some t \<Longrightarrow> length t < length s"
  by (induction rs) (auto split: if_splits simp: prefix_def)

lemma dropLastRune_shorter: "dropLastRune rs s = Some t \<Longrightarrow> length t < length s"
  by (induction rs) (auto split: if_splits simp: suffix_def)

function trimLeft :: "string list \<Rightarrow> string \<Rightarrow> string" where
  "trimLeft rs s = (case dropRune rs s of None \<Rightarrow> s | Some t \<Rightarrow> trimLeft rs t)"
  by pat_completeness auto
termination
  by (relation "measure (\<lambda>(rs, s). length s)") (auto dest: dropRune_shorter)

function trimRight :: "string list \<Rightarrow> string \<Rightarrow> string" where
  "trimRight rs s = (case dropLastRune rs s of None \<Rightarrow> s | Some t \<Rightarrow> trimRight rs t)"
  by pat_completeness auto
termination
  by (relation "measure (\<lambda>(rs, s). length s)") (auto dest: dropLastRune_shorter)

declare trimLeft.simps [simp del] trimRight.simps [simp del]

definition Trim :: "string \<Rightarrow> string list \<Rightarrow> string" where
  "Trim s cutset = trimLeft cutset (trimRight cutset s)"

text \<open>
  \<open>strings.Replace(s, old, new, n)\<close> for \<open>n \<ge> 0\<close>: the first \<open>n\<close> non-overlapping
  occurrences of \<open>old\<close> are replaced by \<open>new\<close>. (With an empty \<open>old\<close> the library matches
  between code points; the model agrees with it there for \<open>n \<le> 1\<close>, and the program's only
  call has \<open>old = ","\<close> and \<open>n = 1\<close>.)
\<close>

fun Replace :: "string \<Rightarrow> string \<Rightarrow> string \<Rightarrow> nat \<Rightarrow> string" where
  "Replace s old new 0 = s"
| "Replace s old new (Suc n) =
     (let j = Index s old in
      if j < 0 then s
      else take (nat j) s @ new @ Replace (drop (nat j + length old) s) old new n)"

text \<open>
  \<open>strconv.ParseUint(s, base, bitSize)\<close> for \<open>2 \<le> base \<le> 36\<close> and \<open>1 \<le> bitSize \<le> 64\<close>
  (the program calls it with base 10 and bit size 16; base 0, with its prefixes and
  underscores, is not modelled). The library reads \<open>s\<close> byte by byte, accumulating in a
  \<open>uint64\<close>; \<open>lower c\<close> is \<open>c | ('x' - 'X')\<close>. It returns at the first byte that is not a
  digit of the base (a syntax error) or that takes the value beyond
  \<open>2 ^ bitSize - 1\<close> (a range error), whichever comes first.
\<close>

definition lower :: "nat \<Rightarrow> nat" where
  "lower c = or c 32"

definition digitOf :: "char \<Rightarrow> nat option" where
  "digitOf ch =
     (let c = (of_char ch :: nat) in
      if 48 \<le> c \<and> c \<le> 57 then Some (c - 48)
      else if 97 \<le> lower c \<and> lower c \<le> 122 then Some (lower c - 97 + 10)
      else None)"

fun parseLoop :: "nat \<Rightarrow> nat \<Rightarrow> nat \<Rightarrow> string \<Rightarrow> error + nat" where
  "parseLoop base maxVal n [] = Inr n"
| "parseLoop base maxVal n (c # s) =
     (case digitOf c of
        None \<Rightarrow> Inl ErrSyntax
      | Some d \<Rightarrow>
          if d \<ge> base then Inl ErrSyntax
          else if n \<ge> (2 ^ 64 - 1) div base + 1 then Inl ErrRange
          else (let n1 = (n * base + d) mod 2 ^ 64 in
                if n1 < n * base \<or> n1 > maxVal then Inl ErrRange
                else parseLoop base maxVal n1 s))"

definition ParseUint :: "string \<Rightarrow> nat \<Rightarrow> nat \<Rightarrow> error + nat" where
  "ParseUint s base bitSize =
     (if s = [] then Inl ErrSyntax
      else if \<not> (2 \<le> base \<and> base \<le> 36) then Inl ErrBase
      else if \<not> (1 \<le> bitSize \<and> bitSize \<le> 64) then Inl ErrBitSize
      else parseLoop base (2 ^ bitSize - 1) 0 s)"

section \<open>The amount parser\<close>

text \<open>
  The cutset of the call to \<open>strings.Trim\<close> in \<open>extractPriceBetweenTwoStrings\<close>, as the
  bytes of the source file give it: space, newline, tab, the three code points U+00E2,
  U+201A and U+00AC (UTF-8 \<open>C3 A2\<close>, \<open>E2 80 9A\<close>, \<open>C2 AC\<close>), and the ASCII letters.
\<close>

definition priceCutset :: "string list" where
  "priceCutset =
     [[CHR '' ''], [CHR 0x0A], [CHR 0x09],
      [CHR 0xC3, CHR 0xA2], [CHR 0xE2, CHR 0x80, CHR 0x9A], [CHR 0xC2, CHR 0xAC]]
     @ map (\<lambda>c. [c]) ''abcdefghijklmnopqrstuvwxyzABCDEFGHIJKLMNOPQRSTUVWXYZ''"

text \<open>
  \<open>extractPriceBetweenTwoStrings\<close>, statement by statement. The two results of
  \<open>strings.Index\<close> are used without a test for \<open>-1\<close>.
\<close>

definition extractPriceBetweenTwoStrings :: "string \<Rightarrow> string \<Rightarrow> string \<Rightarrow> error + nat" where
  "extractPriceBetweenTwoStrings haystack firstString secondString =
     (let priceLineIndex = Index haystack firstString in
      case slice_from haystack (priceLineIndex + int (length firstString)) of
        Inl e \<Rightarrow> Inl e
      | Inr rest \<Rightarrow>
          (let newLineIndex = Index rest secondString in
           case slice haystack (priceLineIndex + int (length firstString))
                  (priceLineIndex + int (length firstString) + newLineIndex) of
             Inl e \<Rightarrow> Inl e
           | Inr euros \<Rightarrow>
               (let euros' = Trim euros priceCutset;
                    cents = Replace euros' '','' [] 1
                in ParseUint cents 10 16)))"

section \<open>The text extractor\<close>

text \<open>
  The tokens of \<open>golang.org/x/net/html\<close> that the loop of \<open>extractTextFromHtml\<close> tells
  apart. The argument of the model is the sequence of tokens that successive calls of
  \<open>Next\<close> yield before the first \<open>ErrorToken\<close>: a start tag carries the \<open>Data\<close> of its
  \<open>Token()\<close> (the tag name), a text token the bytes that \<open>Text()\<close> returns.
\<close>

datatype Token =
    TextToken string
  | StartTagToken string
  | EndTagToken string
  | SelfClosingTagToken string
  | CommentToken string
  | DoctypeToken string

text \<open>
  \<open>html.UnescapeString\<close> returns its argument when it holds no \<open>&\<close> and decodes the
  entities otherwise; the decoder of the library is the parameter \<open>unescape\<close>.
\<close>

definition UnescapeString :: "(string \<Rightarrow> string) \<Rightarrow> string \<Rightarrow> string" where
  "UnescapeString unescape s = (if CHR ''&'' \<in> set s then unescape s else s)"

text \<open>
  The code points with the White_Space property, which \<open>strings.TrimSpace\<close> removes from
  both ends: U+0009 to U+000D, U+0020, U+0085, U+00A0, U+1680, U+2000 to U+200A, U+2028,
  U+2029, U+202F, U+205F and U+3000, in UTF-8.
\<close>

definition whiteSpace :: "string list" where
  "whiteSpace =
     [[CHR 0x09], [CHR 0x0A], [CHR 0x0B], [CHR 0x0C], [CHR 0x0D], [CHR 0x20],
      [CHR 0xC2, CHR 0x85], [CHR 0xC2, CHR 0xA0], [CHR 0xE1, CHR 0x9A, CHR 0x80],
      [CHR 0xE2, CHR 0x80, CHR 0x80], [CHR 0xE2, CHR 0x80, CHR 0x81],
      [CHR 0xE2, CHR 0x80, CHR 0x82], [CHR 0xE2, CHR 0x80, CHR 0x83],
      [CHR 0xE2, CHR 0x80, CHR 0x84], [CHR 0xE2, CHR 0x80, CHR 0x85],
      [CHR 0xE2, CHR 0x80, CHR 0x86], [CHR 0xE2, CHR 0x80, CHR 0x87],
      [CHR 0xE2, CHR 0x80, CHR 0x88], [CHR 0xE2, CHR 0x80, CHR 0x89],
      [CHR 0xE2, CHR 0x80, CHR 0x8A], [CHR 0xE2, CHR 0x80, CHR 0xA8],
      [CHR 0xE2, CHR 0x80, CHR 0xA9], [CHR 0xE2, CHR 0x80, CHR 0xAF],
      [CHR 0xE2, CHR 0x81, CHR 0x9F], [CHR 0xE3, CHR 0x80, CHR 0x80]]"

definition TrimSpace :: "string \<Rightarrow> string" where
  "TrimSpace s = trimRight whiteSpace (trimLeft whiteSpace s)"

text \<open>
  The loop of \<open>extractTextFromHtml\<close>: \<open>previousStart\<close> is the \<open>Data\<close> of
  \<open>previousStartTokenTest\<close>, \<open>builder\<close> what has been written so far. Only a start tag
  changes \<open>previousStart\<close>; only a text token writes.
\<close>

fun walkTokens :: "(string \<Rightarrow> string) \<Rightarrow> string \<Rightarrow> string \<Rightarrow> Token list \<Rightarrow> string" where
  "walkTokens unescape previousStart builder [] = builder"
| "walkTokens unescape previousStart builder (StartTagToken d # ts) =
     walkTokens unescape d builder ts"
| "walkTokens unescape previousStart builder (TextToken t # ts) =
     (if previousStart = ''script'' \<or> previousStart = ''style''
      then walkTokens unescape previousStart builder ts
      else (let TxtContent = TrimSpace (UnescapeString unescape t) in
            if length TxtContent > 0
            then walkTokens unescape previousStart (builder @ TxtContent @ [CHR 0x0A]) ts
            else walkTokens unescape previousStart builder ts))"
| "walkTokens unescape previousStart builder (_ # ts) =
     walkTokens unescape previousStart builder ts"

text \<open>
  Before the loop \<open>previousStartTokenTest\<close> is the token of a tokenizer that has not
  advanced yet, whose \<open>Data\<close> is empty.
\<close>

definition extractTextFromHtml :: "(string \<Rightarrow> string) \<Rightarrow> Token list \<Rightarrow> string" where
  "extractTextFromHtml unescape tokens = walkTokens unescape [] [] tokens"

section \<open>Messages, rules and the classifier\<close>

record Source =
  BillName :: string
  From :: string
  SubjectContains :: string
  Location :: string
  StringBeforePrice :: string
  StringAfterPrice :: string

record Invoice =
  FileName :: string
  FileContents :: string
  Value :: nat

text \<open>
  The part of a Gmail message that \<open>scrapeEmailInvoices\<close> reads: the internal date in
  milliseconds, and the headers and the parts of the payload. \<open>Body\<close> is a pointer in the
  source and may be nil.
\<close>

record MessagePartBody =
  AttachmentId :: string
  Data :: string

record MessagePart =
  MimeType :: string
  Filename :: string
  Body :: "MessagePartBody option"

record MessagePartHeader =
  Name :: string
  HeaderValue :: string

record Message =
  Id :: string
  InternalDate :: int
  Headers :: "MessagePartHeader list"
  Parts :: "MessagePart list"

text \<open>The loop that looks for the subject header.\<close>

fun findSubject :: "string \<Rightarrow> MessagePartHeader list \<Rightarrow> MessagePartHeader option" where
  "findSubject subjectContains [] = None"
| "findSubject subjectContains (h # hs) =
     (if Name h \<noteq> ''Subject'' then findSubject subjectContains hs
      else if \<not> Contains (HeaderValue h) subjectContains then findSubject subjectContains hs
      else Some h)"

text \<open>
  The loop that assigns the body part and the attachment part. The second test is the
  \<open>else if\<close> of the source: it is reached only by a part that the first test rejected.
\<close>

definition isHtml :: "MessagePart \<Rightarrow> bool" where
  "isHtml part = (MimeType part = ''text/html'')"

definition isAttachment :: "MessagePart \<Rightarrow> bool" where
  "isAttachment part =
     (Filename part \<noteq> [] \<and>
      (case Body part of None \<Rightarrow> False | Some b \<Rightarrow> AttachmentId b \<noteq> []))"

fun selectParts ::
  "MessagePart option \<Rightarrow> MessagePart option \<Rightarrow> MessagePart list
     \<Rightarrow> MessagePart option \<times> MessagePart option" where
  "selectParts attachmentPart bodyPart [] = (attachmentPart, bodyPart)"
| "selectParts attachmentPart bodyPart (part # parts) =
     (if bodyPart = None \<and> isHtml part then selectParts attachmentPart (Some part) parts
      else if attachmentPart = None \<and> isAttachment part
      then selectParts (Some part) bodyPart parts
      else selectParts attachmentPart bodyPart parts)"

text \<open>
  A message goes on to extraction when a subject header was found and an attachment part
  was assigned; otherwise the loop over the messages continues with the next one.
\<close>

definition classify ::
  "Message \<Rightarrow> Source \<Rightarrow> (MessagePartHeader \<times> MessagePart \<times> MessagePart option) option" where
  "classify msg source =
     (case findSubject (SubjectContains source) (Headers msg) of
        None \<Rightarrow> None
      | Some subjectHeader \<Rightarrow>
          (case selectParts None None (Parts msg) of
             (None, bodyPart) \<Rightarrow> None
           | (Some attachmentPart, bodyPart) \<Rightarrow>
               Some (subjectHeader, attachmentPart, bodyPart)))"

section \<open>The extraction pipeline for one rule\<close>

text \<open>
  The collaborators of \<open>scrapeEmailInvoices\<close>, as functions; \<open>None\<close> is a call that
  returned an error. \<open>MessagesGet\<close> is \<open>Users.Messages.Get\<close>, \<open>AttachmentsGet\<close> is
  \<open>Users.Messages.Attachments.Get\<close> (message id, attachment id) and returns the \<open>Data\<close> of
  the attachment, \<open>DecodeString\<close> is \<open>base64.URLEncoding.DecodeString\<close>,
  \<open>extractPDFPageContent\<close> runs the external \<open>pdftotext\<close> on one page, \<open>NewTokenizer\<close>
  and \<open>htmlUnescape\<close> (the entity decoder) belong to the HTML library.
\<close>

record Services =
  MessagesGet :: "string \<Rightarrow> Message option"
  AttachmentsGet :: "string \<Rightarrow> string \<Rightarrow> string option"
  DecodeString :: "string \<Rightarrow> string option"
  extractPDFPageContent :: "string \<Rightarrow> int \<Rightarrow> string option"
  NewTokenizer :: "string \<Rightarrow> Token list"
  htmlUnescape :: "string \<Rightarrow> string"

text \<open>
  Every \<open>log.Fatalf\<close> of the loop ends the process, and so does a panic. An error that
  \<open>extractPriceBetweenTwoStrings\<close> returns is logged as "Unable to extract price"; a
  panic inside it is not caught.
\<close>

datatype fatal =
    UnableToRetrieveMessage
  | EmailOutsideTimeRange
  | UnableToRetrieveAttachment
  | UnableToDecodeAttachment
  | UnableToFindBodyPart
  | UnableToDecodeBody
  | UnableToExtractPageContent
  | UnableToExtractPrice error
  | RuntimePanic error

definition priceFailure :: "error \<Rightarrow> fatal" where
  "priceFailure e =
     (if e = PanicSliceBounds \<or> e = PanicNilDereference then RuntimePanic e
      else UnableToExtractPrice e)"

text \<open>
  The \<open>switch source.Location\<close>: it has the two cases \<open>"body"\<close> and \<open>"attachment"\<close> and
  no default, so any other value leaves \<open>invoiceText\<close> at its zero value, the empty
  string.
\<close>

definition invoiceTextOf ::
  "Services \<Rightarrow> Source \<Rightarrow> MessagePart option \<Rightarrow> string \<Rightarrow> fatal + string" where
  "invoiceTextOf srv source bodyPart attachmentBytes =
     (if Location source = ''body'' then
        (case bodyPart of
           None \<Rightarrow> Inl UnableToFindBodyPart
         | Some bp \<Rightarrow>
             (case Body bp of
                None \<Rightarrow> Inl (RuntimePanic PanicNilDereference)
              | Some b \<Rightarrow>
                  (case DecodeString srv (Data b) of
                     None \<Rightarrow> Inl UnableToDecodeBody
                   | Some decodedBody \<Rightarrow>
                       Inr (extractTextFromHtml (htmlUnescape srv)
                              (NewTokenizer srv decodedBody)))))
      else if Location source = ''attachment'' then
        (case extractPDFPageContent srv attachmentBytes 1 of
           None \<Rightarrow> Inl UnableToExtractPageContent
         | Some text \<Rightarrow> Inr text)
      else Inr [])"

text \<open>
  One iteration of the loop over the messages of a rule. Times are instants in
  milliseconds since the epoch: \<open>month\<close> and \<open>nextMonth\<close> are the two ends of the window
  (\<open>nextMonth\<close> is \<open>month.AddDate(0, 1, 0)\<close>, computed by the caller), and the test is
  \<open>internalDate.Before(month) || internalDate.After(nextMonth)\<close>.
\<close>

datatype step = Continue | Break Invoice | Fatal fatal

definition inspectMessage :: "Services \<Rightarrow> int \<Rightarrow> int \<Rightarrow> Source \<Rightarrow> string \<Rightarrow> step" where
  "inspectMessage srv month nextMonth source mId =
     (case MessagesGet srv mId of
        None \<Rightarrow> Fatal UnableToRetrieveMessage
      | Some msg \<Rightarrow>
          if InternalDate msg < month \<or> InternalDate msg > nextMonth
          then Fatal EmailOutsideTimeRange
          else
            (case classify msg source of
               None \<Rightarrow> Continue
             | Some (subjectHeader, attachmentPart, bodyPart) \<Rightarrow>
                 (case Body attachmentPart of
                    None \<Rightarrow> Fatal (RuntimePanic PanicNilDereference)
                  | Some attachmentBody \<Rightarrow>
                      (case AttachmentsGet srv (Id msg) (AttachmentId attachmentBody) of
                         None \<Rightarrow> Fatal UnableToRetrieveAttachment
                       | Some attachmentData \<Rightarrow>
                           (case DecodeString srv attachmentData of
                              None \<Rightarrow> Fatal UnableToDecodeAttachment
                            | Some attachmentBytes \<Rightarrow>
                                (case invoiceTextOf srv source bodyPart attachmentBytes of
                                   Inl f \<Rightarrow> Fatal f
                                 | Inr invoiceText \<Rightarrow>
                                     (case extractPriceBetweenTwoStrings invoiceText
                                             (StringBeforePrice source)
                                             (StringAfterPrice source) of
                                        Inl e \<Rightarrow> Fatal (priceFailure e)
                                      | Inr priceCents \<Rightarrow>
                                          Break \<lparr>FileName = BillName source @ ''.pdf'',
                                                 FileContents = attachmentBytes,
                                                 Value = priceCents\<rparr>)))))))"

text \<open>
  The loop over the message identifiers that the search returned for one rule. The
  result is the invoice written into the slot of the rule, \<open>None\<close> when the slot keeps
  its zero value, or the fatal error that ended the process.
\<close>

fun scanMessages ::
  "Services \<Rightarrow> int \<Rightarrow> int \<Rightarrow> Source \<Rightarrow> string list \<Rightarrow> fatal + Invoice option" where
  "scanMessages srv month nextMonth source [] = Inr None"
| "scanMessages srv month nextMonth source (mId # ms) =
     (case inspectMessage srv month nextMonth source mId of
        Continue \<Rightarrow> scanMessages srv month nextMonth source ms
      | Break invoice \<Rightarrow> Inr (Some invoice)
      | Fatal f \<Rightarrow> Inl f)"

section \<open>Notions used to state the properties\<close>

text \<open>
  An ASCII decimal digit, and the number that a string of digits denotes in base ten.
\<close>

definition isDigit :: "char \<Rightarrow> bool" where
  "isDigit c = (48 \<le> (of_char c :: nat) \<and> (of_char c :: nat) \<le> 57)"

definition decimalValue :: "string \<Rightarrow> nat" where
  "decimalValue s = foldl (\<lambda>n c. n * 10 + ((of_char c :: nat) - 48)) 0 s"


text \<open>
  The parts of a message without the first part of type \<open>text/html\<close>.
\<close>

definition withoutFirstHtml :: "MessagePart list \<Rightarrow> MessagePart list" where
  "withoutFirstHtml parts =
     takeWhile (\<lambda>p. \<not> isHtml p) parts @ drop 1 (dropWhile (\<lambda>p. \<not> isHtml p) parts)"

text \<open>
  The text extractor described on a token sequence, position by position:
  \<open>lastStartTag pre\<close> is the name of the most recently opened start tag among the tokens
  \<open>pre\<close> (empty when there is none), \<open>keptTextAt ts i\<close> is the text of the token at
  position \<open>i\<close> when it is a text token that does not follow a \<open>script\<close> or \<open>style\<close>
  start tag, and \<open>keptTexts\<close> lists these texts in document order.
  \<open>linePerTextNode\<close> writes one line for each of them; \<open>linePerNonEmptyTextNode\<close> writes
  one line for each of them that is not empty after unescaping and trimming.
\<close>

definition lastStartTag :: "Token list \<Rightarrow> string" where
  "lastStartTag ts = foldl (\<lambda>d tok. case tok of StartTagToken d' \<Rightarrow> d' | _ \<Rightarrow> d) [] ts"

definition keptTextAt :: "Token list \<Rightarrow> nat \<Rightarrow> string option" where
  "keptTextAt ts i =
     (case ts ! i of
        TextToken t \<Rightarrow>
          if lastStartTag (take i ts) = ''script'' \<or> lastStartTag (take i ts) = ''style''
          then None else Some t
      | _ \<Rightarrow> None)"

definition keptTexts :: "Token list \<Rightarrow> string list" where
  "keptTexts ts = List.map_filter (keptTextAt ts) [0..<length ts]"

definition linePerTextNode :: "(string \<Rightarrow> string) \<Rightarrow> Token list \<Rightarrow> string" where
  "linePerTextNode unescape ts =
     concat (map (\<lambda>t. TrimSpace (UnescapeString unescape t) @ [CHR 0x0A]) (keptTexts ts))"

definition linePerNonEmptyTextNode :: "(string \<Rightarrow> string) \<Rightarrow> Token list \<Rightarrow> string" where
  "linePerNonEmptyTextNode unescape ts =
     concat (map (\<lambda>l. l @ [CHR 0x0A])
       (filter (\<lambda>l. l \<noteq> []) (map (\<lambda>t. TrimSpace (UnescapeString unescape t)) (keptTexts ts))))"

section \<open>Example inputs\<close>

text \<open>
  The tokens of \<open><p>Hello</p>\<close>, a line break and \<open><p>World</p>\<close>; and a part of type
  \<open>text/html\<close> that is also a file attachment.
\<close>

definition twoParagraphs :: "Token list" where
  "twoParagraphs =
     [StartTagToken ''p'', TextToken ''Hello'', EndTagToken ''p'', TextToken [CHR 0x0A],
      StartTagToken ''p'', TextToken ''World'', EndTagToken ''p'']"

definition htmlAttachment :: MessagePart where
  "htmlAttachment =
     \<lparr>MimeType = ''text/html'', Filename = ''invoice.html'',
      Body = Some \<lparr>AttachmentId = ''att-1'', Data = []\<rparr>\<rparr>"

text \<open>
  Two rules, one reading the amount from the attachment and one with a location that is
  neither \<open>body\<close> nor \<open>attachment\<close>; a message with a matching subject and a PDF
  attachment, and one with the subject and no parts.
\<close>

definition electricRule :: Source where
  "electricRule =
     \<lparr>BillName = ''Electric'', From = ''billing@power.example'',
      SubjectContains = ''Invoice'', Location = ''attachment'',
      StringBeforePrice = ''Total '', StringAfterPrice = '' EUR''\<rparr>"

definition gasRule :: Source where
  "gasRule =
     \<lparr>BillName = ''Gas'', From = ''billing@power.example'',
      SubjectContains = ''Invoice'', Location = ''pdf'',
      StringBeforePrice = ''Total '', StringAfterPrice = '' EUR''\<rparr>"

definition pdfPart :: MessagePart where
  "pdfPart =
     \<lparr>MimeType = ''application/pdf'', Filename = ''invoice.pdf'',
      Body = Some \<lparr>AttachmentId = ''att-1'', Data = []\<rparr>\<rparr>"

definition invoiceSubject :: MessagePartHeader where
  "invoiceSubject = \<lparr>Name = ''Subject'', HeaderValue = ''Your Invoice for May''\<rparr>"

definition invoiceMessage :: "string \<Rightarrow> int \<Rightarrow> Message" where
  "invoiceMessage mId t =
     \<lparr>Id = mId, InternalDate = t, Headers = [invoiceSubject], Parts = [pdfPart]\<rparr>"

definition noticeMessage :: "string \<Rightarrow> int \<Rightarrow> Message" where
  "noticeMessage mId t =
     \<lparr>Id = mId, InternalDate = t, Headers = [invoiceSubject], Parts = []\<rparr>"

text \<open>
  The window of May 2024 in milliseconds (1 May and 1 June, 00:00 UTC), and a mailbox:
  \<open>m1\<close> has no attachment, \<open>m2\<close> is dated exactly at the end of the window, \<open>m4\<close> one
  millisecond later, and there is no message \<open>m3\<close>. \<open>JVBERi0=\<close> is the base64url
  encoding of \<open>%PDF-\<close>.
\<close>

definition may :: int where
  "may = 1714521600000"

definition june :: int where
  "june = 1717200000000"

definition mailbox :: Services where
  "mailbox =
     \<lparr>MessagesGet =
        [''m1'' \<mapsto> noticeMessage ''m1'' 1715765400000,
         ''m2'' \<mapsto> invoiceMessage ''m2'' june,
         ''m4'' \<mapsto> invoiceMessage ''m4'' (june + 1)],
      AttachmentsGet = (\<lambda>mId aId. if aId = ''att-1'' then Some ''JVBERi0='' else None),
      DecodeString = [''JVBERi0='' \<mapsto> ''%PDF-''],
      extractPDFPageContent =
        (\<lambda>bytes page. if bytes = ''%PDF-'' \<and> page = 1
           then Some ''Invoice Total 45,67 EUR thank you'' else None),
      NewTokenizer = (\<lambda>input. []),
      htmlUnescape = (\<lambda>s. s)\<rparr>"

section \<open>Facts about the library functions\<close>

lemma indexFrom_shift:
  "indexFrom (Suc i) s sub = (if indexFrom i s sub < 0 then - 1 else indexFrom i s sub + 1)"
  by (induction s arbitrary: i) auto

lemma Index_Nil: "Index [] sub = (if sub = [] then 0 else - 1)"
  by (simp add: Index_def)

lemma Index_Cons:
  "Index (c # s) sub =
     (if prefix sub (c # s) then 0
      else (let r = Index s sub in if r < 0 then - 1 else r + 1))"
  by (simp add: Index_def indexFrom_shift Let_def)

lemma Index_ge: "- 1 \<le> Index s sub"
  by (induction s) (auto simp: Let_def Index_Nil Index_Cons)

lemma Index_neg_iff: "Index s sub < 0 \<longleftrightarrow> \<not> sublist sub s"
  by (induction s) (auto simp: Let_def sublist_Cons_right Index_Nil Index_Cons)

lemma Contains_iff: "Contains s sub \<longleftrightarrow> sublist sub s"
  using Index_neg_iff [of s sub] by (auto simp: Contains_def)

lemma Index_bounds: "0 \<le> Index s sub \<Longrightarrow> Index s sub + int (length sub) \<le> int (length s)"
  by (induction s) (auto simp: Let_def Index_Nil Index_Cons split: if_splits dest: prefix_length_le)

lemma Index_prefix: "0 \<le> Index s sub \<Longrightarrow> prefix sub (drop (nat (Index s sub)) s)"
proof (induction s)
  case Nil
  then show ?case by (auto simp: Index_Nil split: if_splits)
next
  case (Cons c s)
  show ?case
  proof (cases "prefix sub (c # s)")
    case True
    then show ?thesis by (simp add: Index_Cons)
  next
    case False
    with Cons.prems have nn: "0 \<le> Index s sub" and eq: "Index (c # s) sub = Index s sub + 1"
      by (auto simp: Let_def Index_Cons split: if_splits)
    have "nat (Index s sub + 1) = Suc (nat (Index s sub))" using nn by simp
    with Cons.IH [OF nn] eq show ?thesis by simp
  qed
qed

lemma Index_first: "0 \<le> Index s sub \<Longrightarrow> j < nat (Index s sub) \<Longrightarrow> \<not> prefix sub (drop j s)"
proof (induction s arbitrary: j)
  case Nil
  then show ?case by (auto simp: Index_Nil split: if_splits)
next
  case (Cons c s)
  show ?case
  proof (cases "prefix sub (c # s)")
    case True
    with Cons.prems show ?thesis by (simp add: Index_Cons)
  next
    case False
    with Cons.prems have nn: "0 \<le> Index s sub" and eq: "Index (c # s) sub = Index s sub + 1"
      by (auto simp: Let_def Index_Cons split: if_splits)
    show ?thesis
    proof (cases j)
      case 0
      with False show ?thesis by simp
    next
      case (Suc k)
      with Cons.prems(2) eq nn have "k < nat (Index s sub)" by simp
      from Cons.IH [OF nn this] Suc show ?thesis by simp
    qed
  qed
qed

lemma Index_single: "c \<notin> set xs \<Longrightarrow> Index (xs @ c # ys) [c] = int (length xs)"
  by (induction xs) (auto simp: Let_def Index_Nil Index_Cons)

lemma Replace_single: "Replace s [c] [] (Suc 0) = remove1 c s"
proof (induction s)
  case Nil
  then show ?case by (simp add: Index_Nil)
next
  case (Cons x s)
  show ?case
  proof (cases "x = c")
    case True
    then show ?thesis by (simp add: Index_Cons)
  next
    case False
    show ?thesis
    proof (cases "Index s [c] < 0")
      case True
      with False Cons.IH show ?thesis by (simp add: Let_def Index_Cons)
    next
      case nn: False
      then have "nat (Index s [c] + 1) = Suc (nat (Index s [c]))" by simp
      with False nn Cons.IH show ?thesis by (simp add: Let_def Index_Cons)
    qed
  qed
qed


lemma digitOf_isDigit: "isDigit c \<Longrightarrow> digitOf c = Some ((of_char c :: nat) - 48)"
  by (simp add: digitOf_def isDigit_def Let_def)

lemma digitOf_small: "digitOf c = Some d \<Longrightarrow> d < 10 \<Longrightarrow> isDigit c"
  by (auto simp: digitOf_def isDigit_def Let_def split: if_splits)

lemma decimalFrom_mono: "n \<le> foldl (\<lambda>n c. n * 10 + ((of_char c :: nat) - 48)) n s"
proof (induction s arbitrary: n)
  case Nil
  then show ?case by simp
next
  case (Cons c s)
  have "n \<le> n * 10 + ((of_char c :: nat) - 48)" by simp
  also have "\<dots> \<le> foldl (\<lambda>n c. n * 10 + ((of_char c :: nat) - 48)) (n * 10 + ((of_char c :: nat) - 48)) s"
    by (rule Cons.IH)
  finally show ?case by simp
qed

lemma parseLoop_errors: "parseLoop base maxVal n s = Inl e \<Longrightarrow> e = ErrSyntax \<or> e = ErrRange"
  by (induction s arbitrary: n) (auto simp: Let_def split: option.splits if_splits)

lemma parseLoop_decimal:
  "n \<le> 65535 \<Longrightarrow>
   parseLoop 10 65535 n s = Inr v \<longleftrightarrow>
     (\<forall>c\<in>set s. isDigit c) \<and> foldl (\<lambda>n c. n * 10 + ((of_char c :: nat) - 48)) n s = v \<and> v \<le> 65535"
proof (induction s arbitrary: n)
  case Nil
  then show ?case by auto
next
  case (Cons c s)
  let ?f = "\<lambda>n c. n * 10 + ((of_char c :: nat) - 48)"
  show ?case
  proof (cases "isDigit c")
    case False
    then have "digitOf c = None \<or> (\<exists>d. digitOf c = Some d \<and> d \<ge> 10)"
      using digitOf_small [of c] by (cases "digitOf c") (auto simp: not_less [symmetric])
    with False show ?thesis by auto
  next
    case True
    define d where "d = (of_char c :: nat) - 48"
    have dc: "digitOf c = Some d" using True by (simp add: digitOf_isDigit d_def)
    have d9: "d \<le> 9" using True unfolding isDigit_def d_def by arith
    have small: "n * 10 + d < 2 ^ 64" using Cons.prems d9 by simp
    have cut: "\<not> n \<ge> (2 ^ 64 - 1) div 10 + 1" using Cons.prems by simp
    show ?thesis
    proof (cases "n * 10 + d \<le> 65535")
      case le: True
      have "parseLoop 10 65535 n (c # s) = parseLoop 10 65535 (n * 10 + d) s"
        using dc d9 cut small le by (simp add: Let_def)
      with Cons.IH [OF le] True show ?thesis by (simp add: d_def)
    next
      case gt: False
      have "parseLoop 10 65535 n (c # s) = Inl ErrRange"
        using dc d9 cut small gt by (simp add: Let_def)
      moreover have "n * 10 + d \<le> foldl ?f (n * 10 + d) s" by (rule decimalFrom_mono)
      ultimately show ?thesis using gt by (auto simp: d_def)
    qed
  qed
qed

lemma ParseUint_10_16:
  "ParseUint s 10 16 = Inr v \<longleftrightarrow>
     s \<noteq> [] \<and> (\<forall>c\<in>set s. isDigit c) \<and> decimalValue s = v \<and> v \<le> 65535"
  using parseLoop_decimal [of 0 s v] by (auto simp: ParseUint_def decimalValue_def)

lemma ParseUint_10_16_errors:
  "ParseUint s 10 16 = Inl e \<Longrightarrow> e = ErrSyntax \<or> e = ErrRange"
  by (auto simp: ParseUint_def split: if_splits dest: parseLoop_errors)

lemma dropRune_None:
  "s \<noteq> [] \<Longrightarrow> \<forall>r\<in>set rs. hd r \<noteq> hd s \<Longrightarrow> dropRune rs s = None"
  by (induction rs) (auto simp: prefix_def neq_Nil_conv)

lemma dropLastRune_None:
  "s \<noteq> [] \<Longrightarrow> \<forall>r\<in>set rs. last r \<noteq> last s \<Longrightarrow> dropLastRune rs s = None"
  by (induction rs) (auto simp: suffix_def)

lemma priceCutset_bytes:
  "\<forall>r\<in>set priceCutset.
     \<not> isDigit (hd r) \<and> hd r \<noteq> CHR '','' \<and> \<not> isDigit (last r) \<and> last r \<noteq> CHR '',''"
  by (simp add: priceCutset_def isDigit_def)

lemma Trim_amount:
  assumes "s \<noteq> []"
    and "isDigit (hd s) \<or> hd s = CHR '',''"
    and "isDigit (last s) \<or> last s = CHR '',''"
  shows "Trim s priceCutset = s"
proof -
  have "\<forall>r\<in>set priceCutset. last r \<noteq> last s"
    using priceCutset_bytes assms(3) by metis
  then have r: "trimRight priceCutset s = s"
    using assms(1) by (simp add: trimRight.simps dropLastRune_None)
  have "\<forall>r\<in>set priceCutset. hd r \<noteq> hd s"
    using priceCutset_bytes assms(2) by metis
  then have "trimLeft priceCutset s = s"
    using assms(1) by (simp add: trimLeft.simps dropRune_None)
  with r show ?thesis by (simp add: Trim_def)
qed

lemma extractPrice_field:
  assumes "slice_from haystack (Index haystack a + int (length a)) = Inr rest"
    and "slice haystack (Index haystack a + int (length a))
           (Index haystack a + int (length a) + Index rest b) = Inr euros"
  shows "extractPriceBetweenTwoStrings haystack a b =
           ParseUint (remove1 CHR '','' (Trim euros priceCutset)) 10 16"
  using assms
  by (simp add: extractPriceBetweenTwoStrings_def Let_def Replace_single del: Replace.simps)



lemma slice_from_nat: "s \<le> length h \<Longrightarrow> slice_from h (int s) = Inr (drop s h)"
  by (simp add: slice_from_def)

lemma slice_nat: "s + n \<le> length h \<Longrightarrow> slice h (int s) (int (s + n)) = Inr (take n (drop s h))"
  by (simp add: slice_def nat_add_distrib)

lemma extractPrice_eval:
  assumes "Index haystack a = i"
    and "slice_from haystack (i + int (length a)) = Inr rest"
    and "Index rest b = j"
    and "slice haystack (i + int (length a)) (i + int (length a) + j) = Inr euros"
    and "Trim euros priceCutset = t"
    and "remove1 CHR '','' t = cents"
    and "ParseUint cents 10 16 = r"
  shows "extractPriceBetweenTwoStrings haystack a b = r"
  using assms extractPrice_field [of haystack a rest b euros] by simp

lemma extractPrice_panic_second:
  assumes "Index haystack a = i"
    and "slice_from haystack (i + int (length a)) = Inr rest"
    and "Index rest b = j"
    and "slice haystack (i + int (length a)) (i + int (length a) + j) = Inl e"
  shows "extractPriceBetweenTwoStrings haystack a b = Inl e"
  using assms by (simp add: extractPriceBetweenTwoStrings_def Let_def)

lemma extractPrice_panic_first:
  assumes "Index haystack a = i"
    and "slice_from haystack (i + int (length a)) = Inl e"
  shows "extractPriceBetweenTwoStrings haystack a b = Inl e"
  using assms by (simp add: extractPriceBetweenTwoStrings_def Let_def)

section \<open>The amount parser: anchors\<close>

text \<open>
  C1. The claim asks that an anchor which does not occur in the haystack gives an error
  and never a panic or an out-of-range read. The function does not test the results of
  \<open>strings.Index\<close>. With \<open>before\<close> absent, the search for \<open>after\<close> starts at offset
  \<open>len(before) - 1\<close>: at the first input below the function returns 234, read from the
  middle of the amount; at the third this offset is beyond the haystack and the slice
  expression panics. With \<open>after\<close> absent (the second input) the upper bound of the slice
  is below its lower bound and the slice expression panics.
\<close>

theorem extractPrice_absent_anchor:
  "\<not> sublist ''Amount: '' ''Total 12,34 EUR'' \<and>
   extractPriceBetweenTwoStrings ''Total 12,34 EUR'' ''Amount: '' '' EUR'' = Inr 234 \<and>
   \<not> sublist '' EUR'' ''Total: 12,34'' \<and>
   extractPriceBetweenTwoStrings ''Total: 12,34'' ''Total: '' '' EUR'' = Inl PanicSliceBounds \<and>
   \<not> sublist ''Amount due: '' ''12,34 EUR'' \<and>
   extractPriceBetweenTwoStrings ''12,34 EUR'' ''Amount due: '' '' EUR'' = Inl PanicSliceBounds"
proof -
  have a1: "\<not> sublist ''Amount: '' ''Total 12,34 EUR''"
    by code_simp
  have "Index ''Total 12,34 EUR'' ''Amount: '' = - 1"
    by code_simp
  moreover have "slice_from ''Total 12,34 EUR'' (- 1 + int (length ''Amount: '')) = Inr ''2,34 EUR''"
    by (simp add: slice_from_def)
  moreover have "Index ''2,34 EUR'' '' EUR'' = 4"
    by code_simp
  moreover have "slice ''Total 12,34 EUR'' (- 1 + int (length ''Amount: ''))
      (- 1 + int (length ''Amount: '') + 4) = Inr ''2,34''"
    by (simp add: slice_def)
  moreover have "Trim ''2,34'' priceCutset = ''2,34''"
    by code_simp
  moreover have "remove1 CHR '','' ''2,34'' = ''234''"
    by simp
  moreover have "ParseUint ''234'' 10 16 = Inr 234"
    by (simp add: ParseUint_def digitOf_def Let_def)
  ultimately have b1:
    "extractPriceBetweenTwoStrings ''Total 12,34 EUR'' ''Amount: '' '' EUR'' = Inr 234"
    by (rule extractPrice_eval)
  have a2: "\<not> sublist '' EUR'' ''Total: 12,34''"
    by code_simp
  have "Index ''Total: 12,34'' ''Total: '' = 0"
    by code_simp
  moreover have "slice_from ''Total: 12,34'' (0 + int (length ''Total: '')) = Inr ''12,34''"
    by (simp add: slice_from_def)
  moreover have "Index ''12,34'' '' EUR'' = - 1"
    by code_simp
  moreover have "slice ''Total: 12,34'' (0 + int (length ''Total: ''))
      (0 + int (length ''Total: '') + - 1) = Inl PanicSliceBounds"
    by (simp add: slice_def)
  ultimately have b2:
    "extractPriceBetweenTwoStrings ''Total: 12,34'' ''Total: '' '' EUR'' = Inl PanicSliceBounds"
    by (rule extractPrice_panic_second)
  have a3: "\<not> sublist ''Amount due: '' ''12,34 EUR''"
    by code_simp
  have "Index ''12,34 EUR'' ''Amount due: '' = - 1"
    by code_simp
  moreover have "slice_from ''12,34 EUR'' (- 1 + int (length ''Amount due: '')) = Inl PanicSliceBounds"
    by (simp add: slice_from_def)
  ultimately have b3:
    "extractPriceBetweenTwoStrings ''12,34 EUR'' ''Amount due: '' '' EUR'' = Inl PanicSliceBounds"
    by (rule extractPrice_panic_first)
  from a1 b1 a2 b2 a3 b3 show ?thesis by blast
qed

text \<open>
  C2, as stated, at an amount of 700,00: the anchors occur exactly around the field, the
  flat concatenation of the digits denotes 70000, and the function returns the range
  error of the 16-bit parse.
\<close>

theorem extractPrice_digits_overflow:
  "Index ''Total: 700,00 EUR'' ''Total: '' = 0 \<and>
   Index (''700'' @ '','' @ ''00'' @ '' EUR'') '' EUR'' = 6 \<and>
   extractPriceBetweenTwoStrings ''Total: 700,00 EUR'' ''Total: '' '' EUR'' = Inl ErrRange \<and>
   extractPriceBetweenTwoStrings ''Total: 700,00 EUR'' ''Total: '' '' EUR''
     \<noteq> Inr (decimalValue (''700'' @ ''00''))"
proof -
  have i: "Index ''Total: 700,00 EUR'' ''Total: '' = 0"
    by code_simp
  have j: "Index (''700'' @ '','' @ ''00'' @ '' EUR'') '' EUR'' = 6"
    by code_simp
  have j': "Index ''700,00 EUR'' '' EUR'' = 6"
    using j by simp
  have "slice_from ''Total: 700,00 EUR'' (0 + int (length ''Total: '')) = Inr ''700,00 EUR''"
    by (simp add: slice_from_def)
  moreover note j'
  moreover have "slice ''Total: 700,00 EUR'' (0 + int (length ''Total: ''))
      (0 + int (length ''Total: '') + 6) = Inr ''700,00''"
    by (simp add: slice_def)
  moreover have "Trim ''700,00'' priceCutset = ''700,00''"
    by code_simp
  moreover have "remove1 CHR '','' ''700,00'' = ''70000''"
    by simp
  moreover have "ParseUint ''70000'' 10 16 = Inl ErrRange"
    by (simp add: ParseUint_def digitOf_def Let_def)
  ultimately have
    "extractPriceBetweenTwoStrings ''Total: 700,00 EUR'' ''Total: '' '' EUR'' = Inl ErrRange"
    by (rule extractPrice_eval [OF i])
  with i j show ?thesis by simp
qed

text \<open>
  C2, amended. When the first occurrence of \<open>before\<close> is followed by digits, a comma,
  digits and then the first occurrence of \<open>after\<close>, when there is at least one digit and
  the number that the concatenated digits denote is at most 65535, the function returns
  that number. The haystack \<open>Total: 12,34 EUR\<close> with the anchors \<open>Total: \<close> and \<open> EUR\<close>
  gives 1234.
\<close>

theorem extractPrice_digits_comma_digits:
  assumes "haystack = pre @ before @ d1 @ '','' @ d2 @ after @ post"
    and "Index haystack before = int (length pre)"
    and "Index (d1 @ '','' @ d2 @ after @ post) after = int (length (d1 @ '','' @ d2))"
    and "\<forall>c\<in>set (d1 @ d2). isDigit c"
    and "d1 @ d2 \<noteq> []"
    and "decimalValue (d1 @ d2) \<le> 65535"
  shows "extractPriceBetweenTwoStrings haystack before after = Inr (decimalValue (d1 @ d2))"
proof -
  let ?field = "d1 @ '','' @ d2"
  let ?start = "Index haystack before + int (length before)"
  have start: "?start = int (length (pre @ before))"
    using assms(2) by simp
  have stop: "?start + Index (?field @ after @ post) after =
      int (length (pre @ before) + length ?field)"
    using assms(2,3) by simp
  have rest: "slice_from haystack ?start = Inr (?field @ after @ post)"
    unfolding start using assms(1) by (subst slice_from_nat) simp_all
  have "slice haystack ?start (?start + Index (?field @ after @ post) after) = Inr ?field"
    unfolding stop unfolding start using assms(1) by (subst slice_nat) simp_all
  with rest have 1: "extractPriceBetweenTwoStrings haystack before after =
      ParseUint (remove1 CHR '','' (Trim ?field priceCutset)) 10 16"
    by (rule extractPrice_field)
  have hd: "isDigit (hd ?field) \<or> hd ?field = CHR '',''"
    using assms(4) by (cases d1) auto
  have last: "isDigit (last ?field) \<or> last ?field = CHR '',''"
    using assms(4) by (cases d2 rule: rev_cases) auto
  have 2: "Trim ?field priceCutset = ?field"
    using hd last by (intro Trim_amount) simp_all
  have "\<not> isDigit CHR '',''"
    by (simp add: isDigit_def)
  then have "CHR '','' \<notin> set d1"
    using assms(4) by auto
  then have 3: "remove1 CHR '','' ?field = d1 @ d2"
    by (simp add: remove1_append)
  have "ParseUint (d1 @ d2) 10 16 = Inr (decimalValue (d1 @ d2))"
    using assms(4,5,6) by (subst ParseUint_10_16) simp
  with 1 2 3 show ?thesis by simp
qed

text \<open>C2, amended, at the haystack \<open>Total: 12,34 EUR\<close>.\<close>

theorem extractPrice_digits_comma_digits_witness:
  "extractPriceBetweenTwoStrings ''Total: 12,34 EUR'' ''Total: '' '' EUR'' = Inr 1234"
proof -
  have 1: "''Total: 12,34 EUR'' = [] @ ''Total: '' @ ''12'' @ '','' @ ''34'' @ '' EUR'' @ []"
    by simp
  have 2: "Index ''Total: 12,34 EUR'' ''Total: '' = int (length ([] :: string))"
    by code_simp
  have 3: "Index (''12'' @ '','' @ ''34'' @ '' EUR'' @ []) '' EUR'' = int (length (''12'' @ '','' @ ''34''))"
    by code_simp
  have 4: "\<forall>c\<in>set (''12'' @ ''34''). isDigit c"
    by (simp add: isDigit_def)
  have 5: "''12'' @ ''34'' \<noteq> []"
    by simp
  have 6: "decimalValue (''12'' @ ''34'') \<le> 65535"
    by (simp add: decimalValue_def)
  have "decimalValue (''12'' @ ''34'') = 1234"
    by (simp add: decimalValue_def)
  with extractPrice_digits_comma_digits [OF 1 2 3 4 5 6] show ?thesis
    by simp
qed

section \<open>The amount parser: the number\<close>

lemma parseLoop_digits:
  "parseLoop base maxVal n s = Inr v \<Longrightarrow> c \<in> set s \<Longrightarrow> digitOf c \<noteq> None"
  by (induction s arbitrary: n) (auto simp: Let_def split: option.splits if_splits)

lemma digitOf_comma: "digitOf CHR '','' = None"
  by (simp add: digitOf_def lower_def Let_def)

lemma ParseUint_comma:
  assumes "CHR '','' \<in> set s"
  shows "ParseUint s 10 16 = Inl ErrSyntax \<or> ParseUint s 10 16 = Inl ErrRange"
proof (cases "ParseUint s 10 16")
  case (Inl e)
  then show ?thesis using ParseUint_10_16_errors [of s e] by auto
next
  case (Inr v)
  then have "parseLoop 10 (2 ^ 16 - 1) 0 s = Inr v"
    by (auto simp: ParseUint_def split: if_splits)
  from parseLoop_digits [OF this assms] digitOf_comma show ?thesis by simp
qed

text \<open>
  C7. Only the first comma of the trimmed amount field is removed, and when the field
  still holds a comma after that, the function fails with an error of the integer
  parse: the syntax error at the comma, or the range error when the digits before the
  comma already exceed 16 bits. The hypotheses say that the two slice expressions
  succeed and name the field between the anchors.
\<close>

theorem extractPrice_second_comma:
  assumes "slice_from haystack (Index haystack before + int (length before)) = Inr rest"
    and "slice haystack (Index haystack before + int (length before))
           (Index haystack before + int (length before) + Index rest after) = Inr euros"
    and "CHR '','' \<in> set (remove1 CHR '','' (Trim euros priceCutset))"
  shows "Replace (Trim euros priceCutset) '','' [] 1 = remove1 CHR '','' (Trim euros priceCutset) \<and>
         (extractPriceBetweenTwoStrings haystack before after = Inl ErrSyntax \<or>
          extractPriceBetweenTwoStrings haystack before after = Inl ErrRange)"
proof -
  have "Replace (Trim euros priceCutset) '','' [] 1 = remove1 CHR '','' (Trim euros priceCutset)"
    by (simp add: Replace_single del: Replace.simps)
  moreover have "extractPriceBetweenTwoStrings haystack before after =
      ParseUint (remove1 CHR '','' (Trim euros priceCutset)) 10 16"
    using assms(1,2) by (rule extractPrice_field)
  ultimately show ?thesis
    using ParseUint_comma [OF assms(3)] by simp
qed

text \<open>
  C7 at the haystack \<open>Total: 1,234,56 EUR\<close>: removing the first comma of \<open>1,234,56\<close>
  leaves \<open>1234,56\<close>, and the parse fails at the comma.
\<close>

theorem extractPrice_second_comma_witness:
  "Replace (Trim ''1,234,56'' priceCutset) '','' [] 1 = ''1234,56'' \<and>
   extractPriceBetweenTwoStrings ''Total: 1,234,56 EUR'' ''Total: '' '' EUR'' = Inl ErrSyntax"
proof -
  have i: "Index ''Total: 1,234,56 EUR'' ''Total: '' = 0"
    by code_simp
  have j: "Index ''1,234,56 EUR'' '' EUR'' = 8"
    by code_simp
  have t: "Trim ''1,234,56'' priceCutset = ''1,234,56''"
    by code_simp
  have 1: "slice_from ''Total: 1,234,56 EUR''
      (Index ''Total: 1,234,56 EUR'' ''Total: '' + int (length ''Total: '')) = Inr ''1,234,56 EUR''"
    by (simp add: i slice_from_def)
  have 2: "slice ''Total: 1,234,56 EUR''
      (Index ''Total: 1,234,56 EUR'' ''Total: '' + int (length ''Total: ''))
      (Index ''Total: 1,234,56 EUR'' ''Total: '' + int (length ''Total: '')
         + Index ''1,234,56 EUR'' '' EUR'') = Inr ''1,234,56''"
    by (simp add: i j slice_def)
  have 3: "CHR '','' \<in> set (remove1 CHR '','' (Trim ''1,234,56'' priceCutset))"
    by (simp add: t)
  have p: "ParseUint ''1234,56'' 10 16 = Inl ErrSyntax"
    by (simp add: ParseUint_def digitOf_def lower_def Let_def)
  have "extractPriceBetweenTwoStrings ''Total: 1,234,56 EUR'' ''Total: '' '' EUR''
      = ParseUint (remove1 CHR '','' (Trim ''1,234,56'' priceCutset)) 10 16"
    using 1 2 by (rule extractPrice_field)
  with extractPrice_second_comma [OF 1 2 3] show ?thesis
    by (simp add: t p del: Replace.simps)
qed

text \<open>
  C8. The string left after trimming and removing the first comma is parsed as an
  unsigned integer of 16 bits. Every amount that the function returns is at most 65535.
  When the two slice expressions succeed, with \<open>cents\<close> the string handed to the parse:
  the function returns an amount exactly when \<open>cents\<close> is a non-empty string of digits
  that denotes at most 65535, and the amount is that number; and when \<open>cents\<close> is empty,
  holds a byte that is not a digit, or denotes more than 65535, the function returns the
  syntax error or the range error of the parse.
\<close>

theorem extractPrice_sixteen_bits:
  "(extractPriceBetweenTwoStrings haystack before after = Inr v \<longrightarrow> v \<le> 65535) \<and>
   (slice_from haystack (Index haystack before + int (length before)) = Inr rest \<and>
    slice haystack (Index haystack before + int (length before))
      (Index haystack before + int (length before) + Index rest after) = Inr euros \<and>
    cents = Replace (Trim euros priceCutset) '','' [] 1 \<longrightarrow>
      (extractPriceBetweenTwoStrings haystack before after = Inr v \<longleftrightarrow>
         cents \<noteq> [] \<and> (\<forall>c\<in>set cents. isDigit c) \<and> decimalValue cents = v \<and> v \<le> 65535) \<and>
      (cents = [] \<or> (\<exists>c\<in>set cents. \<not> isDigit c) \<or> 65535 < decimalValue cents \<longrightarrow>
         extractPriceBetweenTwoStrings haystack before after = Inl ErrSyntax \<or>
         extractPriceBetweenTwoStrings haystack before after = Inl ErrRange))"
proof -
  have 1: "v \<le> 65535" if r: "extractPriceBetweenTwoStrings haystack before after = Inr v"
  proof -
    from r obtain s where "ParseUint s 10 16 = Inr v"
      by (auto simp: extractPriceBetweenTwoStrings_def Let_def split: sum.splits)
    then show ?thesis by (simp add: ParseUint_10_16)
  qed
  have 2: "(extractPriceBetweenTwoStrings haystack before after = Inr v \<longleftrightarrow>
         cents \<noteq> [] \<and> (\<forall>c\<in>set cents. isDigit c) \<and> decimalValue cents = v \<and> v \<le> 65535) \<and>
      (cents = [] \<or> (\<exists>c\<in>set cents. \<not> isDigit c) \<or> 65535 < decimalValue cents \<longrightarrow>
         extractPriceBetweenTwoStrings haystack before after = Inl ErrSyntax \<or>
         extractPriceBetweenTwoStrings haystack before after = Inl ErrRange)"
    if a: "slice_from haystack (Index haystack before + int (length before)) = Inr rest"
      and b: "slice haystack (Index haystack before + int (length before))
        (Index haystack before + int (length before) + Index rest after) = Inr euros"
      and c: "cents = Replace (Trim euros priceCutset) '','' [] 1"
  proof -
    have "cents = remove1 CHR '','' (Trim euros priceCutset)"
      unfolding c by (simp add: Replace_single del: Replace.simps)
    with extractPrice_field [OF a b]
    have p: "extractPriceBetweenTwoStrings haystack before after = ParseUint cents 10 16"
      by simp
    have ok: "ParseUint cents 10 16 = Inr v \<longleftrightarrow>
        cents \<noteq> [] \<and> (\<forall>c\<in>set cents. isDigit c) \<and> decimalValue cents = v \<and> v \<le> 65535"
      by (rule ParseUint_10_16)
    have bad: "ParseUint cents 10 16 = Inl ErrSyntax \<or> ParseUint cents 10 16 = Inl ErrRange"
      if n: "cents = [] \<or> (\<exists>c\<in>set cents. \<not> isDigit c) \<or> 65535 < decimalValue cents"
    proof (cases "ParseUint cents 10 16")
      case (Inl e)
      then show ?thesis using ParseUint_10_16_errors [of cents e] by auto
    next
      case (Inr w)
      then have "cents \<noteq> [] \<and> (\<forall>c\<in>set cents. isDigit c) \<and> decimalValue cents \<le> 65535"
        by (simp add: ParseUint_10_16)
      with n show ?thesis by auto
    qed
    from p ok bad show ?thesis by simp
  qed
  from 1 2 show ?thesis by blast
qed

text \<open>
  C8 at the amounts 655,35 (returned as 65535), 655,36 (refused: beyond 16 bits) and
  12a34 (refused: not a number).
\<close>

theorem extractPrice_sixteen_bits_witness:
  "extractPriceBetweenTwoStrings ''Total: 655,35 EUR'' ''Total: '' '' EUR'' = Inr 65535 \<and>
   (65535 :: nat) \<le> 65535 \<and>
   (extractPriceBetweenTwoStrings ''Total: 655,36 EUR'' ''Total: '' '' EUR'' = Inl ErrSyntax \<or>
    extractPriceBetweenTwoStrings ''Total: 655,36 EUR'' ''Total: '' '' EUR'' = Inl ErrRange) \<and>
   (extractPriceBetweenTwoStrings ''Total: 12a34 EUR'' ''Total: '' '' EUR'' = Inl ErrSyntax \<or>
    extractPriceBetweenTwoStrings ''Total: 12a34 EUR'' ''Total: '' '' EUR'' = Inl ErrRange)"
proof -
  have i1: "Index ''Total: 655,35 EUR'' ''Total: '' = 0"
    and i2: "Index ''Total: 655,36 EUR'' ''Total: '' = 0"
    and i3: "Index ''Total: 12a34 EUR'' ''Total: '' = 0"
    by code_simp+
  have j1: "Index ''655,35 EUR'' '' EUR'' = 6"
    and j2: "Index ''655,36 EUR'' '' EUR'' = 6"
    and j3: "Index ''12a34 EUR'' '' EUR'' = 5"
    by code_simp+
  have t1: "Trim ''655,35'' priceCutset = ''655,35''"
    and t2: "Trim ''655,36'' priceCutset = ''655,36''"
    and t3: "Trim ''12a34'' priceCutset = ''12a34''"
    by code_simp+
  have a1: "slice_from ''Total: 655,35 EUR''
        (Index ''Total: 655,35 EUR'' ''Total: '' + int (length ''Total: '')) = Inr ''655,35 EUR'' \<and>
      slice ''Total: 655,35 EUR''
        (Index ''Total: 655,35 EUR'' ''Total: '' + int (length ''Total: ''))
        (Index ''Total: 655,35 EUR'' ''Total: '' + int (length ''Total: '')
           + Index ''655,35 EUR'' '' EUR'') = Inr ''655,35'' \<and>
      ''65535'' = Replace (Trim ''655,35'' priceCutset) '','' [] 1"
    by (simp add: i1 j1 t1 slice_from_def slice_def Replace_single del: Replace.simps)
  have a2: "slice_from ''Total: 655,36 EUR''
        (Index ''Total: 655,36 EUR'' ''Total: '' + int (length ''Total: '')) = Inr ''655,36 EUR'' \<and>
      slice ''Total: 655,36 EUR''
        (Index ''Total: 655,36 EUR'' ''Total: '' + int (length ''Total: ''))
        (Index ''Total: 655,36 EUR'' ''Total: '' + int (length ''Total: '')
           + Index ''655,36 EUR'' '' EUR'') = Inr ''655,36'' \<and>
      ''65536'' = Replace (Trim ''655,36'' priceCutset) '','' [] 1"
    by (simp add: i2 j2 t2 slice_from_def slice_def Replace_single del: Replace.simps)
  have a3: "slice_from ''Total: 12a34 EUR''
        (Index ''Total: 12a34 EUR'' ''Total: '' + int (length ''Total: '')) = Inr ''12a34 EUR'' \<and>
      slice ''Total: 12a34 EUR''
        (Index ''Total: 12a34 EUR'' ''Total: '' + int (length ''Total: ''))
        (Index ''Total: 12a34 EUR'' ''Total: '' + int (length ''Total: '')
           + Index ''12a34 EUR'' '' EUR'') = Inr ''12a34'' \<and>
      ''12a34'' = Replace (Trim ''12a34'' priceCutset) '','' [] 1"
    by (simp add: i3 j3 t3 slice_from_def slice_def Replace_single del: Replace.simps)
  have b1: "''65535'' \<noteq> [] \<and> (\<forall>c\<in>set ''65535''. isDigit c) \<and>
      decimalValue ''65535'' = 65535 \<and> (65535 :: nat) \<le> 65535"
    by (simp add: isDigit_def decimalValue_def)
  have b2: "''65536'' = [] \<or> (\<exists>c\<in>set ''65536''. \<not> isDigit c) \<or> 65535 < decimalValue ''65536''"
    by (simp add: decimalValue_def)
  have b3: "''12a34'' = [] \<or> (\<exists>c\<in>set ''12a34''. \<not> isDigit c) \<or> 65535 < decimalValue ''12a34''"
    by (simp add: isDigit_def)
  from a1 b1
    extractPrice_sixteen_bits [where haystack = "''Total: 655,35 EUR''" and before = "''Total: ''"
      and after = "'' EUR''" and rest = "''655,35 EUR''" and euros = "''655,35''"
      and cents = "''65535''" and v = 65535]
  have r1: "extractPriceBetweenTwoStrings ''Total: 655,35 EUR'' ''Total: '' '' EUR'' = Inr 65535"
    by blast
  from a2 b2
    extractPrice_sixteen_bits [where haystack = "''Total: 655,36 EUR''" and before = "''Total: ''"
      and after = "'' EUR''" and rest = "''655,36 EUR''" and euros = "''655,36''"
      and cents = "''65536''" and v = 0]
  have r2: "extractPriceBetweenTwoStrings ''Total: 655,36 EUR'' ''Total: '' '' EUR'' = Inl ErrSyntax \<or>
      extractPriceBetweenTwoStrings ''Total: 655,36 EUR'' ''Total: '' '' EUR'' = Inl ErrRange"
    by blast
  from a3 b3
    extractPrice_sixteen_bits [where haystack = "''Total: 12a34 EUR''" and before = "''Total: ''"
      and after = "'' EUR''" and rest = "''12a34 EUR''" and euros = "''12a34''"
      and cents = "''12a34''" and v = 0]
  have r3: "extractPriceBetweenTwoStrings ''Total: 12a34 EUR'' ''Total: '' '' EUR'' = Inl ErrSyntax \<or>
      extractPriceBetweenTwoStrings ''Total: 12a34 EUR'' ''Total: '' '' EUR'' = Inl ErrRange"
    by blast
  from r1 r2 r3 show ?thesis by simp
qed

section \<open>The text extractor: one line per text node\<close>

lemma lastStartTag_snoc:
  "lastStartTag (pre @ [tok]) = (case tok of StartTagToken d \<Rightarrow> d | _ \<Rightarrow> lastStartTag pre)"
  by (cases tok) (simp_all add: lastStartTag_def)

lemma keptTextAt_here:
  "keptTextAt (pre @ tok # ts) (length pre) =
     (case tok of
        TextToken t \<Rightarrow>
          if lastStartTag pre = ''script'' \<or> lastStartTag pre = ''style'' then None else Some t
      | _ \<Rightarrow> None)"
  by (cases tok) (simp_all add: keptTextAt_def)

lemma walkTokens_general:
  "walkTokens unescape (lastStartTag pre) builder ts =
     builder @ concat (map (\<lambda>l. l @ [CHR 0x0A])
       (filter (\<lambda>l. l \<noteq> []) (map (\<lambda>t. TrimSpace (UnescapeString unescape t))
          (List.map_filter (keptTextAt (pre @ ts)) [length pre..<length pre + length ts]))))"
proof (induction ts arbitrary: pre builder)
  case Nil
  then show ?case by simp
next
  case (Cons tok ts)
  let ?render = "\<lambda>xs. concat (map (\<lambda>l. l @ [CHR 0x0A])
       (filter (\<lambda>l. l \<noteq> []) (map (\<lambda>t. TrimSpace (UnescapeString unescape t)) xs)))"
  let ?later = "List.map_filter (keptTextAt (pre @ tok # ts))
       [Suc (length pre)..<Suc (length pre) + length ts]"
  have upt: "[length pre..<length pre + length (tok # ts)] =
      length pre # [Suc (length pre)..<Suc (length pre) + length ts]"
    by (subst upt_rec) simp
  have IH: "walkTokens unescape (lastStartTag (pre @ [tok])) b ts = b @ ?render ?later" for b
    using Cons.IH [of "pre @ [tok]" b] by simp
  show ?case
  proof (cases tok)
    case (TextToken t)
    then have same: "lastStartTag (pre @ [tok]) = lastStartTag pre"
      by (simp add: lastStartTag_snoc)
    show ?thesis
      using IH unfolding same upt
      by (simp add: TextToken keptTextAt_here Let_def)
  next
    case (StartTagToken d)
    then have "lastStartTag (pre @ [tok]) = d"
      by (simp add: lastStartTag_snoc)
    with IH show ?thesis unfolding upt
      by (simp add: StartTagToken keptTextAt_here)
  next
    case (EndTagToken d)
    then have "lastStartTag (pre @ [tok]) = lastStartTag pre"
      by (simp add: lastStartTag_snoc)
    with IH show ?thesis unfolding upt
      by (simp add: EndTagToken keptTextAt_here)
  next
    case (SelfClosingTagToken d)
    then have "lastStartTag (pre @ [tok]) = lastStartTag pre"
      by (simp add: lastStartTag_snoc)
    with IH show ?thesis unfolding upt
      by (simp add: SelfClosingTagToken keptTextAt_here)
  next
    case (CommentToken d)
    then have "lastStartTag (pre @ [tok]) = lastStartTag pre"
      by (simp add: lastStartTag_snoc)
    with IH show ?thesis unfolding upt
      by (simp add: CommentToken keptTextAt_here)
  next
    case (DoctypeToken d)
    then have "lastStartTag (pre @ [tok]) = lastStartTag pre"
      by (simp add: lastStartTag_snoc)
    with IH show ?thesis unfolding upt
      by (simp add: DoctypeToken keptTextAt_here)
  qed
qed

text \<open>
  C5, as stated, on the tokens of two paragraphs separated by a line break (no text
  holds an \<open>&\<close>, so the entity decoder is not called): the text token between the
  paragraphs does not follow a \<open>script\<close> or \<open>style\<close> tag, and no line is written for it.
\<close>

theorem extractTextFromHtml_blank_text_no_line:
  "extractTextFromHtml id twoParagraphs = ''Hello'' @ [CHR 0x0A] @ ''World'' @ [CHR 0x0A] \<and>
   linePerTextNode id twoParagraphs =
     ''Hello'' @ [CHR 0x0A] @ [CHR 0x0A] @ ''World'' @ [CHR 0x0A] \<and>
   extractTextFromHtml id twoParagraphs \<noteq> linePerTextNode id twoParagraphs"
proof -
  have 1: "extractTextFromHtml id twoParagraphs = ''Hello'' @ [CHR 0x0A] @ ''World'' @ [CHR 0x0A]"
    by code_simp
  have 2: "linePerTextNode id twoParagraphs =
      ''Hello'' @ [CHR 0x0A] @ [CHR 0x0A] @ ''World'' @ [CHR 0x0A]"
    by code_simp
  from 1 2 show ?thesis by simp
qed

text \<open>
  C5, amended. For every token sequence, the extracted text is made of the text tokens
  whose most recently opened start tag is neither \<open>script\<close> nor \<open>style\<close>, in document
  order, each unescaped and trimmed, and each followed by a newline when it is not empty
  after trimming; a text token that is empty after trimming writes nothing.
\<close>

theorem extractTextFromHtml_lines:
  "extractTextFromHtml unescape tokens = linePerNonEmptyTextNode unescape tokens"
  using walkTokens_general [of unescape "[]" "[]" tokens]
  by (simp add: extractTextFromHtml_def linePerNonEmptyTextNode_def keptTexts_def lastStartTag_def)

section \<open>The classifier\<close>

lemma selectParts_body_set:
  "selectParts attachmentPart (Some b) parts =
     (case attachmentPart of None \<Rightarrow> find isAttachment parts | Some a \<Rightarrow> Some a, Some b)"
  by (induction parts arbitrary: attachmentPart) (auto split: option.splits)

lemma selectParts_body_unset:
  "selectParts attachmentPart None parts =
     (case attachmentPart of
        None \<Rightarrow> find isAttachment (withoutFirstHtml parts)
      | Some a \<Rightarrow> Some a,
      find isHtml parts)"
proof (induction parts arbitrary: attachmentPart)
  case Nil
  then show ?case by (simp add: withoutFirstHtml_def split: option.splits)
next
  case (Cons p parts)
  show ?case
  proof (cases "isHtml p")
    case True
    then show ?thesis
      by (simp add: selectParts_body_set withoutFirstHtml_def split: option.splits)
  next
    case False
    then have w: "withoutFirstHtml (p # parts) = p # withoutFirstHtml parts"
      by (simp add: withoutFirstHtml_def)
    show ?thesis using False Cons.IH
      by (simp add: w split: option.splits)
  qed
qed

text \<open>
  C3, as stated, on a message whose only part is an HTML file attachment: it is the
  first part of type \<open>text/html\<close> and the first part with a file name and an attachment
  reference, but the loop assigns it as body only and finds no attachment.
\<close>

theorem selectParts_roles_not_independent:
  "selectParts None None [htmlAttachment] = (None, Some htmlAttachment) \<and>
   (find isAttachment [htmlAttachment], find isHtml [htmlAttachment])
     = (Some htmlAttachment, Some htmlAttachment)"
  by (simp add: htmlAttachment_def isHtml_def isAttachment_def)

text \<open>
  C3, amended. One scan of the parts in order assigns the body, the first part of type
  \<open>text/html\<close>, and the attachment, the first part other than the one assigned as body
  that has a non-empty file name and an attachment reference; later matches of either
  role are ignored.
\<close>

theorem selectParts_first_matches:
  "selectParts None None parts =
     (find isAttachment (withoutFirstHtml parts), find isHtml parts)"
  by (simp add: selectParts_body_unset)

lemma findSubject_find:
  "findSubject sub hs = find (\<lambda>h. Name h = ''Subject'' \<and> Contains (HeaderValue h) sub) hs"
  by (induction hs) auto

lemma find_SomeD: "find P xs = Some x \<Longrightarrow> x \<in> set xs \<and> P x"
  by (induction xs) (auto split: if_splits)

lemma find_None: "\<forall>x\<in>set xs. \<not> P x \<Longrightarrow> find P xs = None"
  by (induction xs) auto

lemma set_withoutFirstHtml: "set (withoutFirstHtml parts) \<subseteq> set parts"
  unfolding withoutFirstHtml_def
  using set_takeWhileD [of _ "\<lambda>p. \<not> isHtml p" parts] set_dropWhileD [of _ "\<lambda>p. \<not> isHtml p" parts]
    in_set_dropD [of _ 1 "dropWhile (\<lambda>p. \<not> isHtml p) parts"]
  by auto

text \<open>
  C6. A message qualifies only if one of its headers is named exactly \<open>Subject\<close> and
  has a value that contains the configured bytes, and one of its parts has a non-empty
  file name and an attachment reference; a message none of whose parts is such an
  attachment does not qualify, whatever its subject.
\<close>

theorem classify_only_if:
  "(classify msg source = Some (h, a, b) \<longrightarrow>
      h \<in> set (Headers msg) \<and> Name h = ''Subject'' \<and>
      sublist (SubjectContains source) (HeaderValue h) \<and>
      a \<in> set (Parts msg) \<and> Filename a \<noteq> [] \<and>
      (\<exists>ab. Body a = Some ab \<and> AttachmentId ab \<noteq> [])) \<and>
   ((\<forall>p\<in>set (Parts msg). Filename p = [] \<or> Body p = None \<or>
        (\<exists>pb. Body p = Some pb \<and> AttachmentId pb = [])) \<longrightarrow>
      classify msg source = None)"
proof -
  have 1: "h \<in> set (Headers msg) \<and> Name h = ''Subject'' \<and>
      sublist (SubjectContains source) (HeaderValue h) \<and>
      a \<in> set (Parts msg) \<and> Filename a \<noteq> [] \<and>
      (\<exists>ab. Body a = Some ab \<and> AttachmentId ab \<noteq> [])"
    if c: "classify msg source = Some (h, a, b)"
  proof -
    from c have fh: "findSubject (SubjectContains source) (Headers msg) = Some h"
      and fa: "find isAttachment (withoutFirstHtml (Parts msg)) = Some a"
      by (auto simp: classify_def selectParts_body_unset split: option.splits)
    have "h \<in> set (Headers msg) \<and> Name h = ''Subject'' \<and>
        Contains (HeaderValue h) (SubjectContains source)"
      using find_SomeD [OF fh [unfolded findSubject_find]] by simp
    moreover have "a \<in> set (withoutFirstHtml (Parts msg)) \<and> isAttachment a"
      using find_SomeD [OF fa] by simp
    ultimately show ?thesis
      using set_withoutFirstHtml [of "Parts msg"]
      by (auto simp: Contains_iff isAttachment_def split: option.splits)
  qed
  have 2: "classify msg source = None"
    if n: "\<forall>p\<in>set (Parts msg). Filename p = [] \<or> Body p = None \<or>
        (\<exists>pb. Body p = Some pb \<and> AttachmentId pb = [])"
  proof -
    from n have "\<forall>p\<in>set (withoutFirstHtml (Parts msg)). \<not> isAttachment p"
      using set_withoutFirstHtml [of "Parts msg"]
      by (auto simp: isAttachment_def split: option.splits)
    then have "find isAttachment (withoutFirstHtml (Parts msg)) = None"
      by (rule find_None)
    then show ?thesis
      by (simp add: classify_def selectParts_body_unset split: option.splits)
  qed
  from 1 2 show ?thesis by blast
qed

lemma electric_price:
  "extractPriceBetweenTwoStrings ''Invoice Total 45,67 EUR thank you'' ''Total '' '' EUR'' = Inr 4567"
proof -
  have "Index ''Invoice Total 45,67 EUR thank you'' ''Total '' = 8"
    by code_simp
  moreover have "slice_from ''Invoice Total 45,67 EUR thank you'' (8 + int (length ''Total ''))
      = Inr ''45,67 EUR thank you''"
    by (simp add: slice_from_def)
  moreover have "Index ''45,67 EUR thank you'' '' EUR'' = 5"
    by code_simp
  moreover have "slice ''Invoice Total 45,67 EUR thank you'' (8 + int (length ''Total ''))
      (8 + int (length ''Total '') + 5) = Inr ''45,67''"
    by (simp add: slice_def)
  moreover have "Trim ''45,67'' priceCutset = ''45,67''"
    by code_simp
  moreover have "remove1 CHR '','' ''45,67'' = ''4567''"
    by simp
  moreover have "ParseUint ''4567'' 10 16 = Inr 4567"
    by (simp add: ParseUint_def digitOf_def Let_def)
  ultimately show ?thesis
    by (rule extractPrice_eval)
qed

lemma classify_invoiceMessage:
  "classify (invoiceMessage mId t) electricRule = Some (invoiceSubject, pdfPart, None)"
proof -
  have "Contains ''Your Invoice for May'' ''Invoice''"
    by code_simp
  then show ?thesis
    by (simp add: classify_def invoiceMessage_def electricRule_def invoiceSubject_def
        pdfPart_def isHtml_def isAttachment_def)
qed

lemma classify_noticeMessage: "classify (noticeMessage mId t) source = None"
  by (simp add: classify_def noticeMessage_def split: option.splits)

text \<open>C6 on the message with the PDF attachment and on the message without parts.\<close>

theorem classify_only_if_witness:
  "classify (invoiceMessage ''m2'' june) electricRule = Some (invoiceSubject, pdfPart, None) \<and>
   invoiceSubject \<in> set (Headers (invoiceMessage ''m2'' june)) \<and>
   Name invoiceSubject = ''Subject'' \<and>
   sublist (SubjectContains electricRule) (HeaderValue invoiceSubject) \<and>
   pdfPart \<in> set (Parts (invoiceMessage ''m2'' june)) \<and> Filename pdfPart \<noteq> [] \<and>
   (\<exists>ab. Body pdfPart = Some ab \<and> AttachmentId ab \<noteq> []) \<and>
   Parts (noticeMessage ''m1'' 1715765400000) = [] \<and>
   classify (noticeMessage ''m1'' 1715765400000) electricRule = None"
proof -
  have 1: "classify (invoiceMessage ''m2'' june) electricRule = Some (invoiceSubject, pdfPart, None)"
    by (rule classify_invoiceMessage)
  have 2: "\<forall>p\<in>set (Parts (noticeMessage ''m1'' 1715765400000)). Filename p = [] \<or> Body p = None \<or>
        (\<exists>pb. Body p = Some pb \<and> AttachmentId pb = [])"
    by (simp add: noticeMessage_def)
  have 3: "Parts (noticeMessage ''m1'' 1715765400000) = []"
    by (simp add: noticeMessage_def)
  from 1 2 3
    classify_only_if [of "invoiceMessage ''m2'' june" electricRule invoiceSubject pdfPart None]
    classify_only_if [of "noticeMessage ''m1'' 1715765400000" electricRule invoiceSubject pdfPart None]
  show ?thesis by blast
qed

section \<open>The pipeline\<close>

lemma scanMessages_skip:
  "\<forall>m\<in>set pre. inspectMessage srv month nextMonth source m = Continue \<Longrightarrow>
   scanMessages srv month nextMonth source (pre @ rest) = scanMessages srv month nextMonth source rest"
  by (induction pre) auto

lemma invoiceTextOf_fatal:
  "invoiceTextOf srv source bodyPart attachmentBytes = Inl f \<Longrightarrow> f \<noteq> EmailOutsideTimeRange"
  by (auto simp: invoiceTextOf_def split: if_splits option.splits)

lemma priceFailure_fatal: "priceFailure e \<noteq> EmailOutsideTimeRange"
  by (simp add: priceFailure_def)

lemma inspectMessage_outside:
  "MessagesGet srv mId = Some msg \<Longrightarrow> InternalDate msg < month \<or> nextMonth < InternalDate msg \<Longrightarrow>
   inspectMessage srv month nextMonth source mId = Fatal EmailOutsideTimeRange"
  by (auto simp: inspectMessage_def)

lemma inspectMessage_inside:
  "MessagesGet srv mId = Some msg \<Longrightarrow> month \<le> InternalDate msg \<Longrightarrow> InternalDate msg \<le> nextMonth \<Longrightarrow>
   inspectMessage srv month nextMonth source mId \<noteq> Fatal EmailOutsideTimeRange"
  by (auto simp: inspectMessage_def priceFailure_fatal
      split: option.splits sum.splits dest: invoiceTextOf_fatal)


lemma inspect_invoiceMessage:
  assumes "MessagesGet mailbox mId = Some (invoiceMessage mId t)"
    and "may \<le> t" and "t \<le> june"
  shows "inspectMessage mailbox may june electricRule mId =
     Break \<lparr>FileName = ''Electric.pdf'', FileContents = ''%PDF-'', Value = 4567\<rparr>"
proof -
  have 1: "Body pdfPart = Some \<lparr>AttachmentId = ''att-1'', Data = []\<rparr>"
    by (simp add: pdfPart_def)
  have 2: "AttachmentsGet mailbox (Id (invoiceMessage mId t)) ''att-1'' = Some ''JVBERi0=''"
    by (simp add: mailbox_def)
  have 3: "DecodeString mailbox ''JVBERi0='' = Some ''%PDF-''"
    by (simp add: mailbox_def)
  have 4: "invoiceTextOf mailbox electricRule None ''%PDF-'' = Inr ''Invoice Total 45,67 EUR thank you''"
    by (simp add: invoiceTextOf_def electricRule_def mailbox_def)
  have 5: "StringBeforePrice electricRule = ''Total ''" "StringAfterPrice electricRule = '' EUR''"
    "BillName electricRule = ''Electric''"
    by (simp_all add: electricRule_def)
  have 6: "InternalDate (invoiceMessage mId t) = t"
    by (simp add: invoiceMessage_def)
  show ?thesis
    using assms by (simp add: inspectMessage_def classify_invoiceMessage 1 2 3 4 5 6 electric_price)
qed

lemma inspect_m1: "inspectMessage mailbox may june electricRule ''m1'' = Continue"
proof -
  have 1: "MessagesGet mailbox ''m1'' = Some (noticeMessage ''m1'' 1715765400000)"
    by (simp add: mailbox_def)
  have 2: "InternalDate (noticeMessage ''m1'' 1715765400000) = 1715765400000"
    by (simp add: noticeMessage_def)
  show ?thesis
    by (simp add: inspectMessage_def 1 2 classify_noticeMessage may_def june_def)
qed

text \<open>
  C4, as stated, on the message \<open>m2\<close>, dated exactly at the end of the window: the check
  lets it pass, and an invoice is produced from it.
\<close>

theorem inspectMessage_accepts_window_end:
  "MessagesGet mailbox ''m2'' = Some (invoiceMessage ''m2'' june) \<and>
   InternalDate (invoiceMessage ''m2'' june) = june \<and>
   inspectMessage mailbox may june electricRule ''m2'' =
     Break \<lparr>FileName = ''Electric.pdf'', FileContents = ''%PDF-'', Value = 4567\<rparr>"
proof -
  have 1: "MessagesGet mailbox ''m2'' = Some (invoiceMessage ''m2'' june)"
    by (simp add: mailbox_def)
  have 2: "may \<le> june"
    by (simp add: may_def june_def)
  from 1 inspect_invoiceMessage [OF 1 2] show ?thesis
    by (simp add: invoiceMessage_def)
qed

text \<open>
  C4, amended. Every message that the loop reaches is checked against the closed window
  from \<open>month\<close> to \<open>nextMonth\<close>: a message dated before \<open>month\<close> or after \<open>nextMonth\<close> ends
  the run with the fatal error "outside of time range", also when the messages before
  it were skipped; a message dated within the window, both ends included, passes the
  check.
\<close>

theorem inspectMessage_closed_window:
  assumes "MessagesGet srv mId = Some msg"
    and "\<forall>m\<in>set pre. inspectMessage srv month nextMonth source m = Continue"
  shows "(InternalDate msg < month \<or> nextMonth < InternalDate msg \<longrightarrow>
            inspectMessage srv month nextMonth source mId = Fatal EmailOutsideTimeRange \<and>
            scanMessages srv month nextMonth source (pre @ mId # post) = Inl EmailOutsideTimeRange) \<and>
         (month \<le> InternalDate msg \<and> InternalDate msg \<le> nextMonth \<longrightarrow>
            inspectMessage srv month nextMonth source mId \<noteq> Fatal EmailOutsideTimeRange)"
  using inspectMessage_outside [OF assms(1), of month nextMonth source]
    inspectMessage_inside [OF assms(1), of month nextMonth source]
    scanMessages_skip [OF assms(2), of "mId # post"]
  by auto

text \<open>
  C4, amended, on the mailbox: \<open>m4\<close>, one millisecond after the window, is fatal, alone
  and after the skipped \<open>m1\<close>; \<open>m2\<close>, at the end of the window, is not.
\<close>

theorem inspectMessage_closed_window_witness:
  "inspectMessage mailbox may june electricRule ''m4'' = Fatal EmailOutsideTimeRange \<and>
   scanMessages mailbox may june electricRule [''m1'', ''m4'', ''m2''] = Inl EmailOutsideTimeRange \<and>
   inspectMessage mailbox may june electricRule ''m2'' \<noteq> Fatal EmailOutsideTimeRange"
proof -
  have m4: "MessagesGet mailbox ''m4'' = Some (invoiceMessage ''m4'' (june + 1))"
    by (simp add: mailbox_def)
  have m2: "MessagesGet mailbox ''m2'' = Some (invoiceMessage ''m2'' june)"
    by (simp add: mailbox_def)
  have "inspectMessage mailbox may june electricRule ''m1'' = Continue"
    by (rule inspect_m1)
  then have pre: "\<forall>m\<in>set [''m1'']. inspectMessage mailbox may june electricRule m = Continue"
    by simp
  have d4: "InternalDate (invoiceMessage ''m4'' (june + 1)) = june + 1"
    and d2: "InternalDate (invoiceMessage ''m2'' june) = june"
    by (simp_all add: invoiceMessage_def)
  have w: "may \<le> june"
    by (simp add: may_def june_def)
  from inspectMessage_closed_window [OF m4 pre, where post = "[''m2'']"]
    inspectMessage_closed_window [OF m2 pre, where post = "[]"] d4 d2 w
  show ?thesis by simp
qed



lemma dropRune_Nil: "dropRune rs [] = None"
  by (induction rs) auto

lemma dropLastRune_Nil: "dropLastRune rs [] = None"
  by (induction rs) auto

lemma Trim_Nil: "Trim [] rs = []"
  by (simp add: Trim_def trimLeft.simps trimRight.simps dropRune_Nil dropLastRune_Nil)

lemma extractPrice_empty: "\<exists>e. extractPriceBetweenTwoStrings [] a b = Inl e"
  by (auto simp: extractPriceBetweenTwoStrings_def Index_Nil slice_from_def slice_def Let_def
      Trim_Nil ParseUint_def)

text \<open>
  C10. With a location that is neither \<open>body\<close> nor \<open>attachment\<close>, no case of the switch
  is taken and the extracted text is empty; for a qualifying message whose attachment
  was fetched and decoded, the amount parser runs on the empty string, where it always
  fails, and the run ends with that failure rather than with a configuration error.
\<close>

theorem unknown_location_parses_empty_text:
  assumes "Location source \<noteq> ''body''" and "Location source \<noteq> ''attachment''"
    and "MessagesGet srv mId = Some msg"
    and "month \<le> InternalDate msg" and "InternalDate msg \<le> nextMonth"
    and "classify msg source = Some (subjectHeader, attachmentPart, bodyPart)"
    and "Body attachmentPart = Some attachmentBody"
    and "AttachmentsGet srv (Id msg) (AttachmentId attachmentBody) = Some attachmentData"
    and "DecodeString srv attachmentData = Some attachmentBytes"
  shows "invoiceTextOf srv source bodyPart attachmentBytes = Inr [] \<and>
         (\<exists>e. extractPriceBetweenTwoStrings [] (StringBeforePrice source) (StringAfterPrice source)
                 = Inl e \<and>
              inspectMessage srv month nextMonth source mId = Fatal (priceFailure e))"
proof -
  have t: "invoiceTextOf srv source bodyPart attachmentBytes = Inr []"
    using assms(1,2) by (simp add: invoiceTextOf_def)
  obtain e where e: "extractPriceBetweenTwoStrings [] (StringBeforePrice source)
      (StringAfterPrice source) = Inl e"
    using extractPrice_empty by blast
  have "inspectMessage srv month nextMonth source mId = Fatal (priceFailure e)"
    using assms(3-9) t e by (simp add: inspectMessage_def)
  with t e show ?thesis by blast
qed

text \<open>
  C10 on the rule with location \<open>pdf\<close>: the parser panics on the empty text, because the
  anchor \<open>Total \<close> is absent.
\<close>

theorem unknown_location_parses_empty_text_witness:
  "Location gasRule \<noteq> ''body'' \<and> Location gasRule \<noteq> ''attachment'' \<and>
   invoiceTextOf mailbox gasRule None ''%PDF-'' = Inr [] \<and>
   extractPriceBetweenTwoStrings [] ''Total '' '' EUR'' = Inl PanicSliceBounds \<and>
   inspectMessage mailbox may june gasRule ''m2'' = Fatal (RuntimePanic PanicSliceBounds)"
proof -
  have 1: "Location gasRule \<noteq> ''body''" and 2: "Location gasRule \<noteq> ''attachment''"
    by (simp_all add: gasRule_def)
  have 3: "MessagesGet mailbox ''m2'' = Some (invoiceMessage ''m2'' june)"
    by (simp add: mailbox_def)
  have 4: "may \<le> InternalDate (invoiceMessage ''m2'' june)"
    and 5: "InternalDate (invoiceMessage ''m2'' june) \<le> june"
    by (simp_all add: invoiceMessage_def may_def june_def)
  have "Contains ''Your Invoice for May'' ''Invoice''"
    by code_simp
  then have 6: "classify (invoiceMessage ''m2'' june) gasRule = Some (invoiceSubject, pdfPart, None)"
    by (simp add: classify_def invoiceMessage_def gasRule_def invoiceSubject_def
        pdfPart_def isHtml_def isAttachment_def)
  have 7: "Body pdfPart = Some \<lparr>AttachmentId = ''att-1'', Data = []\<rparr>"
    by (simp add: pdfPart_def)
  have 8: "AttachmentsGet mailbox (Id (invoiceMessage ''m2'' june))
      (AttachmentId \<lparr>AttachmentId = ''att-1'', Data = []\<rparr>) = Some ''JVBERi0=''"
    by (simp add: mailbox_def)
  have 9: "DecodeString mailbox ''JVBERi0='' = Some ''%PDF-''"
    by (simp add: mailbox_def)
  have p: "extractPriceBetweenTwoStrings [] ''Total '' '' EUR'' = Inl PanicSliceBounds"
    by (simp add: extractPriceBetweenTwoStrings_def Index_Nil slice_from_def)
  have s: "StringBeforePrice gasRule = ''Total ''" "StringAfterPrice gasRule = '' EUR''"
    by (simp_all add: gasRule_def)
  from unknown_location_parses_empty_text [OF 1 2 3 4 5 6 7 8 9] 1 2 p s
  show ?thesis by (auto simp: priceFailure_def)
qed

end
